theory Spec2Isabelle
  imports Main
begin

section \<open>Sensor evaluation (sensor\_definition.py)\<close>

subsection \<open>Data model\<close>

text \<open>
  Exceptions are values. \<open>CheckError\<close> is a failure of \<open>dagster._check\<close>
  (\<open>check.failed\<close>, \<open>check.inst\<close>, \<open>check.is_list\<close>, \<open>check.invariant\<close>) with its
  description; the three targeting errors are the \<open>Exception\<close>s of
  \<open>check_valid_run_requests\<close>, carrying the sensor name, the offending job name and the
  list \<open>target_names\<close> that the message prints; \<open>CursorNotUpdatedError\<close> is the
  \<open>DagsterInvalidDefinitionError\<close> of \<open>_wrap_asset_fn\<close>; \<open>UnexpectedOutputError\<close> is the
  \<open>Exception\<close> of \<open>wrap_sensor_evaluation\<close>; \<open>UserError\<close> is anything the user routine
  raises itself. The remaining ones are raised in schedules.py: \<open>ValueError\<close>,
  \<open>TypeError\<close> and \<open>IndexError\<close> by Python, \<open>NonExistingTime\<close> and \<open>AmbiguousTime\<close>
  by pendulum, \<open>CroniterBadCronError\<close> by croniter.
\<close>

datatype error =
    CheckError string
  | LackingTargetError string
  | JobNameNotSpecifiedError string "string list"
  | JobNameNotExpectedError string string "string list"
  | CursorNotUpdatedError
  | UnexpectedOutputError string
  | UserError string
  | ValueError
  | TypeError
  | NonExistingTime
  | AmbiguousTime
  | CroniterBadCronError
  | IndexError

record RunRequest =
  run_key :: "string option"
  job_name :: "string option"

text \<open>
  What an evaluation routine can yield: a \<open>RunRequest\<close>, a \<open>SkipReason\<close> (with its optional
  \<open>skip_message\<close>), a \<open>PipelineRunReaction\<close> (opaque here), \<open>None\<close>, or an object of
  any other type (named by its type).
\<close>

datatype item =
    RunRequestItem RunRequest
  | SkipReasonItem "string option"
  | PipelineRunReactionItem nat
  | NoneItem
  | OtherItem string

text \<open>
  The evaluation context: the cursor, and the flag \<open>cursor_has_been_updated\<close> of the
  multi-asset and partitioned-asset contexts.
\<close>

record SensorEvaluationContext =
  ctx_cursor :: "string option"
  cursor_has_been_updated :: bool

definition update_cursor :: "SensorEvaluationContext \<Rightarrow> string option \<Rightarrow> SensorEvaluationContext" where
  "update_cursor context c = context\<lparr>ctx_cursor := c\<rparr>"

text \<open>
  \<open>advance_cursor\<close> of the asset contexts stores \<open>json.dumps(update_dict)\<close> (the argument
  \<open>cursor_str\<close> here, computed from the event records) and raises the flag.
\<close>

definition advance_cursor :: "SensorEvaluationContext \<Rightarrow> string \<Rightarrow> SensorEvaluationContext" where
  "advance_cursor context cursor_str =
     context\<lparr>ctx_cursor := Some cursor_str, cursor_has_been_updated := True\<rparr>"

text \<open>
  A generator object is modelled by what exhausting it does: started on the context as it
  is then, it either raises or has yielded a list of items and left the context changed.
  A routine is called with the context and either raises or returns one of the shapes the
  wrappers tell apart, with the context as its body left it.
\<close>

type_synonym generator = "SensorEvaluationContext \<Rightarrow> error + item list \<times> SensorEvaluationContext"

datatype raw_return =
    ReturnNone
  | ReturnGenerator generator
  | ReturnList "item list"
  | ReturnRunRequest RunRequest
  | ReturnSkipReason "string option"
  | ReturnOther string

type_synonym raw_fn = "SensorEvaluationContext \<Rightarrow> error + raw_return \<times> SensorEvaluationContext"

record SensorDefinition =
  sensor_name :: string
  sensor_targets :: "string list"
  evaluation_fn :: generator

record SensorExecutionData =
  run_requests :: "RunRequest list option"
  skip_message :: "string option"
  cursor :: "string option"
  pipeline_run_reactions :: "nat list option"

subsection \<open>The wrappers\<close>

text \<open>
  \<open>wrap_sensor_evaluation\<close>: the items of a generator or a list, a single \<open>SkipReason\<close> or
  \<open>RunRequest\<close>, nothing for \<open>None\<close>, and an exception for anything else.
\<close>

definition wrap_sensor_evaluation :: "string \<Rightarrow> raw_fn \<Rightarrow> generator" where
  "wrap_sensor_evaluation name fn context =
     (case fn context of
        Inl e \<Rightarrow> Inl e
      | Inr (result, context1) \<Rightarrow>
          (case result of
             ReturnGenerator g \<Rightarrow> g context1
           | ReturnList xs \<Rightarrow> Inr (xs, context1)
           | ReturnSkipReason m \<Rightarrow> Inr ([SkipReasonItem m], context1)
           | ReturnRunRequest r \<Rightarrow> Inr ([RunRequestItem r], context1)
           | ReturnNone \<Rightarrow> Inr ([], context1)
           | ReturnOther t \<Rightarrow> Inl (UnexpectedOutputError name)))"

text \<open>
  The body of \<open>_fn\<close> in \<open>_wrap_asset_fn\<close> (the module-level one used by the
  partitioned-asset sensor and the identical nested one of the multi-asset sensor), run to
  exhaustion. \<open>runs_yielded\<close> is set by every item that the loop over a generator or a
  list yields, and by a returned \<open>RunRequest\<close>; a returned \<open>SkipReason\<close> leaves it unset.
\<close>

definition asset_fn_body :: "raw_fn \<Rightarrow> generator" where
  "asset_fn_body materialization_fn context =
     (let context0 = context\<lparr>cursor_has_been_updated := False\<rparr> in
      case materialization_fn context0 of
        Inl e \<Rightarrow> Inl e
      | Inr (result, context1) \<Rightarrow>
          (case result of
             ReturnNone \<Rightarrow> Inr ([], context1)
           | _ \<Rightarrow>
             (case (case result of
                      ReturnGenerator g \<Rightarrow>
                        (case g context1 of
                           Inl e \<Rightarrow> Inl e
                         | Inr (xs, context2) \<Rightarrow> Inr (xs, xs \<noteq> [], context2))
                    | ReturnList xs \<Rightarrow> Inr (xs, xs \<noteq> [], context1)
                    | ReturnRunRequest r \<Rightarrow> Inr ([RunRequestItem r], True, context1)
                    | ReturnSkipReason m \<Rightarrow> Inr ([SkipReasonItem m], False, context1)
                    | _ \<Rightarrow> Inr ([], False, context1)) of
                Inl e \<Rightarrow> Inl e
              | Inr (xs, runs_yielded, context2) \<Rightarrow>
                  if runs_yielded \<and> \<not> cursor_has_been_updated context2
                  then Inl CursorNotUpdatedError
                  else Inr (xs, context2))))"

text \<open>Calling \<open>_fn\<close> runs nothing yet: it returns the generator.\<close>

definition wrap_asset_fn :: "raw_fn \<Rightarrow> raw_fn" where
  "wrap_asset_fn materialization_fn context =
     Inr (ReturnGenerator (asset_fn_body materialization_fn), context)"

text \<open>
  The constructors, as far as evaluation goes: \<open>targets\<close> are given by their
  \<open>pipeline_name\<close>s.
\<close>

definition SensorDefinition_init :: "string \<Rightarrow> string list \<Rightarrow> raw_fn \<Rightarrow> SensorDefinition" where
  "SensorDefinition_init name targets fn =
     \<lparr>sensor_name = name, sensor_targets = targets,
      evaluation_fn = wrap_sensor_evaluation name fn\<rparr>"

definition MultiAssetSensorDefinition_init :: "string \<Rightarrow> string list \<Rightarrow> raw_fn \<Rightarrow> SensorDefinition" where
  "MultiAssetSensorDefinition_init name targets asset_materialization_fn =
     SensorDefinition_init name targets (wrap_asset_fn asset_materialization_fn)"

definition PartitionedAssetSensorDefinition_init :: "string \<Rightarrow> string list \<Rightarrow> raw_fn \<Rightarrow> SensorDefinition" where
  "PartitionedAssetSensorDefinition_init name targets asset_materialization_fn =
     SensorDefinition_init name targets (wrap_asset_fn asset_materialization_fn)"

subsection \<open>evaluate\_tick\<close>

text \<open>Python truthiness of an optional list and of an optional string.\<close>

definition truthy_list :: "'a list option \<Rightarrow> bool" where
  "truthy_list xs = (case xs of None \<Rightarrow> False | Some ys \<Rightarrow> ys \<noteq> [])"

definition truthy_str :: "string option \<Rightarrow> bool" where
  "truthy_str s = (case s of None \<Rightarrow> False | Some t \<Rightarrow> t \<noteq> [])"

definition SensorExecutionData_new ::
  "RunRequest list option \<Rightarrow> string option \<Rightarrow> string option \<Rightarrow> nat list option
     \<Rightarrow> error + SensorExecutionData" where
  "SensorExecutionData_new rs msg cur reactions =
     (if truthy_list rs \<and> truthy_str msg
      then Inl (CheckError ''Found both skip data and run request data'')
      else Inr \<lparr>run_requests = rs, skip_message = msg, cursor = cur,
                pipeline_run_reactions = reactions\<rparr>)"

fun check_each_run_request :: "string \<Rightarrow> string list \<Rightarrow> RunRequest list \<Rightarrow> error + unit" where
  "check_each_run_request name target_names [] = Inr ()"
| "check_each_run_request name target_names (run_request # rest) =
     (if job_name run_request = None \<and> length target_names > 1
      then Inl (JobNameNotSpecifiedError name target_names)
      else if truthy_str (job_name run_request)
              \<and> the (job_name run_request) \<notin> set target_names
      then Inl (JobNameNotExpectedError name (the (job_name run_request)) target_names)
      else check_each_run_request name target_names rest)"

definition check_valid_run_requests :: "SensorDefinition \<Rightarrow> RunRequest list \<Rightarrow> error + unit" where
  "check_valid_run_requests self rs =
     (if rs \<noteq> [] \<and> sensor_targets self = []
      then Inl (LackingTargetError (sensor_name self))
      else check_each_run_request (sensor_name self) (sensor_targets self) rs)"

definition is_RunRequest :: "item \<Rightarrow> bool" where
  "is_RunRequest x = (case x of RunRequestItem r \<Rightarrow> True | _ \<Rightarrow> False)"

definition is_SkipReason :: "item \<Rightarrow> bool" where
  "is_SkipReason x = (case x of SkipReasonItem m \<Rightarrow> True | _ \<Rightarrow> False)"

definition is_PipelineRunReaction :: "item \<Rightarrow> bool" where
  "is_PipelineRunReaction x = (case x of PipelineRunReactionItem r \<Rightarrow> True | _ \<Rightarrow> False)"

definition is_expected_type :: "item \<Rightarrow> bool" where
  "is_expected_type x = (is_SkipReason x \<or> is_RunRequest x \<or> is_PipelineRunReaction x)"

fun the_run_requests :: "item list \<Rightarrow> RunRequest list" where
  "the_run_requests [] = []"
| "the_run_requests (RunRequestItem r # xs) = r # the_run_requests xs"
| "the_run_requests (x # xs) = the_run_requests xs"

fun the_reactions :: "item list \<Rightarrow> nat list" where
  "the_reactions [] = []"
| "the_reactions (PipelineRunReactionItem r # xs) = r # the_reactions xs"
| "the_reactions (x # xs) = the_reactions xs"

text \<open>
  The classification of the normalised result: the run requests, the skip message and the
  reactions, or the check that failed.
\<close>

definition classify_result :: "item list \<Rightarrow> error + RunRequest list \<times> string option \<times> nat list" where
  "classify_result result =
     (if result = [] \<or> result = [NoneItem]
      then Inr ([], Some ''Sensor function returned an empty result'', [])
      else if length result = 1
      then (case hd result of
              RunRequestItem r \<Rightarrow> Inr ([r], None, [])
            | PipelineRunReactionItem r \<Rightarrow> Inr ([], None, [r])
            | SkipReasonItem m \<Rightarrow> Inr ([], m, [])
            | _ \<Rightarrow> Inl (CheckError ''Object is not a SkipReason, RunRequest or PipelineRunReaction''))
      else if \<not> list_all is_expected_type result
      then Inl (CheckError ''Member of list is not a SkipReason, RunRequest or PipelineRunReaction'')
      else if list_ex is_SkipReason result
      then (if the_run_requests result \<noteq> []
            then Inl (CheckError ''Expected a single SkipReason or one or more RunRequests: received both RunRequest and SkipReason'')
            else if the_reactions result \<noteq> []
            then Inl (CheckError ''Expected a single SkipReason or one or more PipelineRunReaction: received both PipelineRunReaction and SkipReason'')
            else Inl (CheckError ''Expected a single SkipReason: received multiple SkipReasons''))
      else Inr (the_run_requests result, None, the_reactions result))"

definition evaluate_tick :: "SensorDefinition \<Rightarrow> SensorEvaluationContext \<Rightarrow> error + SensorExecutionData" where
  "evaluate_tick self context =
     (case evaluation_fn self context of
        Inl e \<Rightarrow> Inl e
      | Inr (result, context1) \<Rightarrow>
          (case classify_result result of
             Inl e \<Rightarrow> Inl e
           | Inr (rs, msg, reactions) \<Rightarrow>
               (case check_valid_run_requests self rs of
                  Inl e \<Rightarrow> Inl e
                | Inr u \<Rightarrow>
                    SensorExecutionData_new (Some rs) msg (ctx_cursor context1) (Some reactions))))"

subsection \<open>Properties of the evaluation\<close>

lemma classify_result_many_with_skip:
  assumes "length result > 1" and "list_ex is_SkipReason result"
  shows "\<exists>msg. classify_result result = Inl (CheckError msg)"
proof -
  from assms(1) have "result \<noteq> []" "result \<noteq> [NoneItem]" "length result \<noteq> 1"
    by auto
  with assms(2) show ?thesis
    by (simp add: classify_result_def)
qed

lemma SensorExecutionData_new_invariant:
  assumes "SensorExecutionData_new rs m cur reactions = Inr d"
  shows "\<not> (truthy_list (run_requests d) \<and> truthy_str (skip_message d))"
  using assms by (auto simp: SensorExecutionData_new_def split: if_splits)

lemma evaluate_tick_built_by_new:
  assumes "evaluate_tick self context = Inr d"
  shows "\<exists>rs m cur reactions. SensorExecutionData_new rs m cur reactions = Inr d"
  using assms by (auto simp: evaluate_tick_def split: sum.splits prod.splits)

text \<open>
  C7. When the normalised result of the evaluation has more than one item and one of them
  is a skip reason, \<open>evaluate_tick\<close> fails with a check error, whatever the other items
  are. Every \<open>SensorExecutionData\<close> that the constructor builds, and so every one that
  \<open>evaluate_tick\<close> returns, does not have both a non-empty list of run requests and a
  non-empty skip message.
\<close>

theorem evaluate_tick_skip_among_many:
  "(evaluation_fn self context = Inr (result, context1) \<and> length result > 1
      \<and> list_ex is_SkipReason result
    \<longrightarrow> (\<exists>msg. evaluate_tick self context = Inl (CheckError msg)))
   \<and> (SensorExecutionData_new rs m cur reactions = Inr d
    \<longrightarrow> \<not> (truthy_list (run_requests d) \<and> truthy_str (skip_message d)))
   \<and> (evaluate_tick self context = Inr d'
    \<longrightarrow> \<not> (truthy_list (run_requests d') \<and> truthy_str (skip_message d')))"
proof (intro conjI impI)
  assume a: "evaluation_fn self context = Inr (result, context1) \<and> length result > 1
      \<and> list_ex is_SkipReason result"
  then obtain msg where "classify_result result = Inl (CheckError msg)"
    using classify_result_many_with_skip by blast
  with a show "\<exists>msg. evaluate_tick self context = Inl (CheckError msg)"
    by (simp add: evaluate_tick_def)
next
  assume "SensorExecutionData_new rs m cur reactions = Inr d"
  then show "\<not> (truthy_list (run_requests d) \<and> truthy_str (skip_message d))"
    by (rule SensorExecutionData_new_invariant)
next
  assume "evaluate_tick self context = Inr d'"
  then show "\<not> (truthy_list (run_requests d') \<and> truthy_str (skip_message d'))"
    using evaluate_tick_built_by_new SensorExecutionData_new_invariant by blast
qed

text \<open>
  A sensor with the target \<open>job_a\<close> whose routine returns a list of a skip reason and a
  run request: the tick fails. A sensor whose routine returns one run request: the data
  returned has run requests and no skip message.
\<close>

definition skip_and_run_sensor :: SensorDefinition where
  "skip_and_run_sensor =
     SensorDefinition_init ''mixed'' [''job_a'']
       (\<lambda>c. Inr (ReturnList [SkipReasonItem (Some ''no new data''),
                              RunRequestItem \<lparr>run_key = None, job_name = Some ''job_a''\<rparr>], c))"

definition one_run_sensor :: SensorDefinition where
  "one_run_sensor =
     SensorDefinition_init ''single'' [''job_a'']
       (\<lambda>c. Inr (ReturnRunRequest \<lparr>run_key = Some ''k'', job_name = None\<rparr>, c))"

definition fresh_context :: SensorEvaluationContext where
  "fresh_context = \<lparr>ctx_cursor = None, cursor_has_been_updated = False\<rparr>"

definition one_run_data :: SensorExecutionData where
  "one_run_data =
     \<lparr>run_requests = Some [\<lparr>run_key = Some ''k'', job_name = None\<rparr>], skip_message = None,
      cursor = None, pipeline_run_reactions = Some []\<rparr>"

lemma one_run_sensor_tick: "evaluate_tick one_run_sensor fresh_context = Inr one_run_data"
  by (simp add: evaluate_tick_def one_run_sensor_def SensorDefinition_init_def
      wrap_sensor_evaluation_def classify_result_def check_valid_run_requests_def
      SensorExecutionData_new_def truthy_str_def truthy_list_def fresh_context_def
      one_run_data_def)

lemma one_run_data_new:
  "SensorExecutionData_new (Some [\<lparr>run_key = Some ''k'', job_name = None\<rparr>]) None None (Some [])
     = Inr one_run_data"
  by (simp add: SensorExecutionData_new_def truthy_str_def truthy_list_def one_run_data_def)

lemma skip_and_run_sensor_result:
  "evaluation_fn skip_and_run_sensor fresh_context =
     Inr ([SkipReasonItem (Some ''no new data''),
           RunRequestItem \<lparr>run_key = None, job_name = Some ''job_a''\<rparr>], fresh_context)"
  by (simp add: skip_and_run_sensor_def SensorDefinition_init_def wrap_sensor_evaluation_def)

theorem evaluate_tick_skip_among_many_witness:
  "(\<exists>msg. evaluate_tick skip_and_run_sensor fresh_context = Inl (CheckError msg))
   \<and> evaluate_tick one_run_sensor fresh_context = Inr one_run_data
   \<and> truthy_list (run_requests one_run_data)
   \<and> \<not> truthy_str (skip_message one_run_data)"
proof -
  have len: "length [SkipReasonItem (Some ''no new data''),
           RunRequestItem \<lparr>run_key = None, job_name = Some ''job_a''\<rparr>] > 1"
    by simp
  have ex: "list_ex is_SkipReason [SkipReasonItem (Some ''no new data''),
           RunRequestItem \<lparr>run_key = None, job_name = Some ''job_a''\<rparr>]"
    by (simp add: is_SkipReason_def)
  note t = evaluate_tick_skip_among_many
    [of skip_and_run_sensor fresh_context
        "[SkipReasonItem (Some ''no new data''),
           RunRequestItem \<lparr>run_key = None, job_name = Some ''job_a''\<rparr>]"
        fresh_context
        "Some [\<lparr>run_key = Some ''k'', job_name = None\<rparr>]" None None "Some []" one_run_data
        one_run_data]
  from t skip_and_run_sensor_result len ex
  have 1: "\<exists>msg. evaluate_tick skip_and_run_sensor fresh_context = Inl (CheckError msg)"
    by blast
  from t one_run_data_new
  have 2: "\<not> (truthy_list (run_requests one_run_data) \<and> truthy_str (skip_message one_run_data))"
    by blast
  have 3: "truthy_list (run_requests one_run_data)"
    by (simp add: one_run_data_def truthy_list_def)
  from 1 2 3 one_run_sensor_tick show ?thesis by blast
qed

text \<open>
  C9 (as amended). When the normalised result is empty or is the list holding only
  \<open>None\<close>, \<open>evaluate_tick\<close> returns data with an empty list of run requests, no run
  reactions, the context's cursor and the skip message
  \<open>Sensor function returned an empty result\<close>.
\<close>

theorem evaluate_tick_empty_result:
  "evaluation_fn self context = Inr (result, context1) \<and> (result = [] \<or> result = [NoneItem])
   \<longrightarrow> evaluate_tick self context =
         Inr \<lparr>run_requests = Some [],
              skip_message = Some ''Sensor function returned an empty result'',
              cursor = ctx_cursor context1, pipeline_run_reactions = Some []\<rparr>"
  by (auto simp: evaluate_tick_def classify_result_def check_valid_run_requests_def
      SensorExecutionData_new_def truthy_list_def)

definition none_sensor :: SensorDefinition where
  "none_sensor = SensorDefinition_init ''quiet'' [''job_a''] (\<lambda>c. Inr (ReturnNone, c))"

definition none_list_sensor :: SensorDefinition where
  "none_list_sensor =
     SensorDefinition_init ''quiet_list'' [] (\<lambda>c. Inr (ReturnList [NoneItem], update_cursor c (Some ''7'')))"

lemma none_sensor_result: "evaluation_fn none_sensor fresh_context = Inr ([], fresh_context)"
  by (simp add: none_sensor_def SensorDefinition_init_def wrap_sensor_evaluation_def)

lemma none_list_sensor_result:
  "evaluation_fn none_list_sensor fresh_context
     = Inr ([NoneItem], \<lparr>ctx_cursor = Some ''7'', cursor_has_been_updated = False\<rparr>)"
  by (simp add: none_list_sensor_def SensorDefinition_init_def wrap_sensor_evaluation_def
      update_cursor_def fresh_context_def)

theorem evaluate_tick_empty_result_witness:
  "evaluate_tick none_sensor fresh_context =
     Inr \<lparr>run_requests = Some [],
          skip_message = Some ''Sensor function returned an empty result'',
          cursor = None, pipeline_run_reactions = Some []\<rparr>
   \<and> evaluate_tick none_list_sensor fresh_context =
     Inr \<lparr>run_requests = Some [],
          skip_message = Some ''Sensor function returned an empty result'',
          cursor = Some ''7'', pipeline_run_reactions = Some []\<rparr>"
  using evaluate_tick_empty_result [of none_sensor fresh_context "[]" fresh_context]
    evaluate_tick_empty_result [of none_list_sensor fresh_context "[NoneItem]"
      "\<lparr>ctx_cursor = Some ''7'', cursor_has_been_updated = False\<rparr>"]
    none_sensor_result none_list_sensor_result
  by (simp add: fresh_context_def)

text \<open>
  The message is not the text \<open>function returned an empty result.\<close>: for the routine that
  returns \<open>None\<close> the tick returns data whose skip message differs from it.
\<close>

theorem evaluate_tick_empty_result_counterexample:
  "evaluate_tick none_sensor fresh_context =
     Inr \<lparr>run_requests = Some [],
          skip_message = Some ''Sensor function returned an empty result'',
          cursor = None, pipeline_run_reactions = Some []\<rparr>
   \<and> skip_message \<lparr>run_requests = Some [],
          skip_message = Some ''Sensor function returned an empty result'',
          cursor = None, pipeline_run_reactions = Some []\<rparr>
       \<noteq> Some ''function returned an empty result.''"
  by (simp add: evaluate_tick_def none_sensor_def SensorDefinition_init_def
      wrap_sensor_evaluation_def classify_result_def check_valid_run_requests_def
      SensorExecutionData_new_def truthy_list_def fresh_context_def)

subsection \<open>The cursor check of the asset sensors\<close>

text \<open>
  What holds of the wrapped routine: when the generator it returns yields anything and
  leaves the flag unset, exhausting \<open>_fn\<close> raises; when the flag is set it does not; when
  the routine returns a lone \<open>SkipReason\<close>, \<open>_fn\<close> yields it and does not raise.
\<close>

lemma asset_fn_body_yield_without_advance:
  assumes "materialization_fn (context\<lparr>cursor_has_been_updated := False\<rparr>)
             = Inr (ReturnGenerator g, context1)"
    and "g context1 = Inr (xs, context2)" and "xs \<noteq> []"
    and "\<not> cursor_has_been_updated context2"
  shows "asset_fn_body materialization_fn context = Inl CursorNotUpdatedError"
  using assms by (simp add: asset_fn_body_def)

lemma asset_fn_body_yield_with_advance:
  assumes "materialization_fn (context\<lparr>cursor_has_been_updated := False\<rparr>)
             = Inr (ReturnGenerator g, context1)"
    and "g context1 = Inr (xs, context2)"
    and "cursor_has_been_updated context2"
  shows "asset_fn_body materialization_fn context = Inr (xs, context2)"
  using assms by (simp add: asset_fn_body_def)

lemma asset_fn_body_returned_skip:
  assumes "materialization_fn (context\<lparr>cursor_has_been_updated := False\<rparr>)
             = Inr (ReturnSkipReason m, context1)"
  shows "asset_fn_body materialization_fn context = Inr ([SkipReasonItem m], context1)"
  using assms by (simp add: asset_fn_body_def)

text \<open>
  C2. A multi-asset sensor whose routine is a generator that yields one skip reason,
  yields no run request and never advances the cursor: the loop over the generator sets
  \<open>runs_yielded\<close> for the skip reason too, and the tick fails with the
  cursor-not-updated error. The partitioned-asset sensor does the same.
\<close>

definition skip_only_routine :: raw_fn where
  "skip_only_routine c =
     Inr (ReturnGenerator (\<lambda>c'. Inr ([SkipReasonItem (Some ''no new data'')], c')), c)"

theorem multi_asset_yielded_skip_fails:
  "evaluate_tick (MultiAssetSensorDefinition_init ''assets'' [''job_a''] skip_only_routine)
       fresh_context = Inl CursorNotUpdatedError
   \<and> evaluate_tick (PartitionedAssetSensorDefinition_init ''assets'' [''job_a''] skip_only_routine)
       fresh_context = Inl CursorNotUpdatedError"
  by (simp add: evaluate_tick_def MultiAssetSensorDefinition_init_def
      PartitionedAssetSensorDefinition_init_def SensorDefinition_init_def
      wrap_sensor_evaluation_def wrap_asset_fn_def asset_fn_body_def skip_only_routine_def
      fresh_context_def)

subsection \<open>The targets of run requests\<close>

lemma check_valid_run_requests_no_target:
  assumes "rs \<noteq> []" and "sensor_targets self = []"
  shows "check_valid_run_requests self rs = Inl (LackingTargetError (sensor_name self))"
  using assms by (simp add: check_valid_run_requests_def)

lemma check_each_run_request_unnamed:
  assumes "length target_names > 1" and "r \<in> set rs" and "job_name r = None"
  shows "\<exists>e. check_each_run_request name target_names rs = Inl e"
  using assms by (induction rs) auto

lemma check_each_run_request_unexpected:
  assumes "r \<in> set rs" and "job_name r = Some j" and "j \<noteq> []" and "j \<notin> set target_names"
  shows "\<exists>e. check_each_run_request name target_names rs = Inl e"
  using assms by (induction rs) (auto simp: truthy_str_def)

lemma check_valid_run_requests_job_c:
  "check_valid_run_requests
     \<lparr>sensor_name = ''two'', sensor_targets = [''job_a'', ''job_b''], evaluation_fn = g\<rparr>
     [\<lparr>run_key = None, job_name = Some ''job_c''\<rparr>]
   = Inl (JobNameNotExpectedError ''two'' ''job_c'' [''job_a'', ''job_b''])"
  by (simp add: check_valid_run_requests_def truthy_str_def)

text \<open>
  C8. A sensor with the two targets \<open>job_a\<close> and \<open>job_b\<close> whose routine returns a run
  request with the empty string as its job name: the request names none of the targets,
  no check of \<open>check_valid_run_requests\<close> fires (the name is not \<open>None\<close>, and it is
  falsy), and the tick returns the request.
\<close>

theorem empty_job_name_passes_validation:
  "evaluate_tick
     (SensorDefinition_init ''two'' [''job_a'', ''job_b'']
        (\<lambda>c. Inr (ReturnRunRequest \<lparr>run_key = None, job_name = Some []\<rparr>, c)))
     fresh_context
   = Inr \<lparr>run_requests = Some [\<lparr>run_key = None, job_name = Some []\<rparr>],
          skip_message = None, cursor = None, pipeline_run_reactions = Some []\<rparr>"
  by (simp add: evaluate_tick_def SensorDefinition_init_def wrap_sensor_evaluation_def
      classify_result_def check_valid_run_requests_def SensorExecutionData_new_def
      truthy_list_def truthy_str_def fresh_context_def)

section \<open>Calendar, time zones and pendulum datetimes\<close>

text \<open>
  schedules.py computes with pendulum datetimes. An instant is a whole number of
  microseconds since 1970-01-01T00:00:00Z (a float timestamp is taken as the exact number
  it stands for); a time zone is its UTC offset (in seconds) before its first transition
  and the list of its transitions, each the UTC second at which a new offset starts, in
  ascending order. The wall-clock fields of a datetime are derived from its instant and
  its zone, as pendulum derives them.
\<close>

definition and_then :: "error + 'a \<Rightarrow> ('a \<Rightarrow> error + 'b) \<Rightarrow> error + 'b" where
  "and_then r f = (case r of Inl e \<Rightarrow> Inl e | Inr x \<Rightarrow> f x)"

definition isleap :: "int \<Rightarrow> bool" where
  "isleap y = (y mod 4 = 0 \<and> (y mod 100 \<noteq> 0 \<or> y mod 400 = 0))"

definition days_in_month :: "int \<Rightarrow> int \<Rightarrow> int" where
  "days_in_month y m =
     (if m = 2 then (if isleap y then 29 else 28)
      else if m = 4 \<or> m = 6 \<or> m = 9 \<or> m = 11 then 30 else 31)"

text \<open>Days since 1970-01-01 of a date of the proleptic Gregorian calendar, and back.\<close>

definition days_from_civil :: "int \<Rightarrow> int \<Rightarrow> int \<Rightarrow> int" where
  "days_from_civil y m d =
     (let y' = (if m \<le> 2 then y - 1 else y);
          era = y' div 400;
          yoe = y' - era * 400;
          mp = (m + 9) mod 12;
          doy = (153 * mp + 2) div 5 + d - 1;
          doe = yoe * 365 + yoe div 4 - yoe div 100 + doy
      in era * 146097 + doe - 719468)"

definition civil_from_days :: "int \<Rightarrow> int \<times> int \<times> int" where
  "civil_from_days z =
     (let z' = z + 719468;
          era = z' div 146097;
          doe = z' - era * 146097;
          yoe = (doe - doe div 1460 + doe div 36524 - doe div 146096) div 365;
          doy = doe - (365 * yoe + yoe div 4 - yoe div 100);
          mp = (5 * doy + 2) div 153;
          d = doy - (153 * mp + 2) div 5 + 1;
          m = (if mp < 10 then mp + 3 else mp - 9)
      in (if m \<le> 2 then yoe + era * 400 + 1 else yoe + era * 400, m, d))"

record tzinfo =
  timezone_name :: string
  base_offset :: int
  transitions :: "(int \<times> int) list"

fun offset_from :: "int \<Rightarrow> (int \<times> int) list \<Rightarrow> int \<Rightarrow> int" where
  "offset_from off [] u = off"
| "offset_from off ((t, off') # ts) u = (if t \<le> u then offset_from off' ts u else off)"

definition utcoffset_at :: "tzinfo \<Rightarrow> int \<Rightarrow> int" where
  "utcoffset_at z u = offset_from (base_offset z) (transitions z) u"

definition UTC :: tzinfo where
  "UTC = \<lparr>timezone_name = ''UTC'', base_offset = 0, transitions = []\<rparr>"

record PendulumDateTime =
  epoch_us :: int
  tz :: tzinfo

definition epoch_seconds :: "PendulumDateTime \<Rightarrow> int" where
  "epoch_seconds d = epoch_us d div 1000000"

definition utcoffset :: "PendulumDateTime \<Rightarrow> int" where
  "utcoffset d = utcoffset_at (tz d) (epoch_seconds d)"

definition local_seconds :: "PendulumDateTime \<Rightarrow> int" where
  "local_seconds d = epoch_seconds d + utcoffset d"

definition year :: "PendulumDateTime \<Rightarrow> int" where
  "year d = fst (civil_from_days (local_seconds d div 86400))"

definition month :: "PendulumDateTime \<Rightarrow> int" where
  "month d = fst (snd (civil_from_days (local_seconds d div 86400)))"

definition day :: "PendulumDateTime \<Rightarrow> int" where
  "day d = snd (snd (civil_from_days (local_seconds d div 86400)))"

definition hour :: "PendulumDateTime \<Rightarrow> int" where
  "hour d = local_seconds d mod 86400 div 3600"

definition minute :: "PendulumDateTime \<Rightarrow> int" where
  "minute d = local_seconds d mod 3600 div 60"

definition second :: "PendulumDateTime \<Rightarrow> int" where
  "second d = local_seconds d mod 60"

definition microsecond :: "PendulumDateTime \<Rightarrow> int" where
  "microsecond d = epoch_us d mod 1000000"

text \<open>pendulum's \<open>day_of_week\<close>: 0 is Sunday; 1970-01-01 was a Thursday.\<close>

definition day_of_week :: "PendulumDateTime \<Rightarrow> int" where
  "day_of_week d = (local_seconds d div 86400 + 4) mod 7"

text \<open>\<open>int(d.timestamp())\<close> truncates towards zero.\<close>

definition int_timestamp :: "PendulumDateTime \<Rightarrow> int" where
  "int_timestamp d =
     (if 0 \<le> epoch_us d then epoch_us d div 1000000 else - ((- epoch_us d) div 1000000))"

definition from_timestamp :: "int \<Rightarrow> tzinfo \<Rightarrow> PendulumDateTime" where
  "from_timestamp s z = \<lparr>epoch_us = s * 1000000, tz = z\<rparr>"

subsection \<open>From a wall-clock time to an instant\<close>

text \<open>
  The instants (in seconds) at which the zone's clock shows the wall-clock second \<open>w\<close>,
  in ascending order: none when \<open>w\<close> falls in the gap of a forward transition, two when
  it falls in the overlap of a backward one. pendulum's \<open>TRANSITION_ERROR\<close> rule raises
  in both cases; its \<open>POST_TRANSITION\<close> rule takes the later instant of an overlap and
  moves a time in a gap forward by the length of the gap.
\<close>

definition wall_instants :: "tzinfo \<Rightarrow> int \<Rightarrow> int list" where
  "wall_instants z w =
     sort (remdups (filter (\<lambda>u. u + utcoffset_at z u = w)
                           (map (\<lambda>off. w - off) (base_offset z # map snd (transitions z)))))"

fun gap_offset :: "int \<Rightarrow> (int \<times> int) list \<Rightarrow> int \<Rightarrow> int" where
  "gap_offset off [] w = off"
| "gap_offset off ((t, off') # ts) w =
     (if t + off \<le> w \<and> w < t + off' then off else gap_offset off' ts w)"

datatype dst_rule = TRANSITION_ERROR | POST_TRANSITION

definition resolve_wall :: "tzinfo \<Rightarrow> dst_rule \<Rightarrow> int \<Rightarrow> error + int" where
  "resolve_wall z rule w =
     (case wall_instants z w of
        [] \<Rightarrow> (case rule of
                 TRANSITION_ERROR \<Rightarrow> Inl NonExistingTime
               | POST_TRANSITION \<Rightarrow> Inr (w - gap_offset (base_offset z) (transitions z) w))
      | [u] \<Rightarrow> Inr u
      | u # us \<Rightarrow> (case rule of
                     TRANSITION_ERROR \<Rightarrow> Inl AmbiguousTime
                   | POST_TRANSITION \<Rightarrow> Inr (last us)))"

definition wall_seconds :: "int \<Rightarrow> int \<Rightarrow> int \<Rightarrow> int \<Rightarrow> int \<Rightarrow> int \<Rightarrow> int" where
  "wall_seconds y m d h mi s = days_from_civil y m d * 86400 + h * 3600 + mi * 60 + s"

text \<open>
  \<open>create_pendulum_time(year, month, day, hour, minute, second, microsecond, tz, dst_rule)\<close>:
  Python's \<open>datetime\<close> refuses fields out of range with a \<open>ValueError\<close>, then the zone
  resolves the wall-clock time by the rule.
\<close>

definition create_pendulum_time ::
  "int \<Rightarrow> int \<Rightarrow> int \<Rightarrow> int \<Rightarrow> int \<Rightarrow> int \<Rightarrow> int \<Rightarrow> tzinfo \<Rightarrow> dst_rule
     \<Rightarrow> error + PendulumDateTime" where
  "create_pendulum_time y m d h mi s us z rule =
     (if \<not> (1 \<le> y \<and> y \<le> 9999 \<and> 1 \<le> m \<and> m \<le> 12 \<and> 1 \<le> d \<and> d \<le> days_in_month y m
             \<and> 0 \<le> h \<and> h \<le> 23 \<and> 0 \<le> mi \<and> mi \<le> 59 \<and> 0 \<le> s \<and> s \<le> 59
             \<and> 0 \<le> us \<and> us \<le> 999999)
      then Inl ValueError
      else and_then (resolve_wall z rule (wall_seconds y m d h mi s))
             (\<lambda>u. Inr \<lparr>epoch_us = u * 1000000 + us, tz = z\<rparr>))"

subsection \<open>pendulum arithmetic\<close>

text \<open>
  \<open>add\<close> with months, weeks or days works on the wall clock: the month is moved (wrapping
  once around the year, the day clamped to the length of the new month), the days are
  added, and the result is resolved in the zone by the \<open>POST_TRANSITION\<close> rule. With all
  three zero and hours given it adds to the instant. \<open>subtract\<close> is \<open>add\<close> of the
  negated amounts.
\<close>

definition add :: "PendulumDateTime \<Rightarrow> int \<Rightarrow> int \<Rightarrow> int \<Rightarrow> int \<Rightarrow> PendulumDateTime" where
  "add d months weeks days hours =
     (if months = 0 \<and> weeks = 0 \<and> days = 0
      then d\<lparr>epoch_us := epoch_us d + hours * 3600 * 1000000\<rparr>
      else
        (let m0 = month d + months;
             y1 = (if months \<noteq> 0 \<and> m0 > 12 then year d + 1
                   else if months \<noteq> 0 \<and> m0 < 1 then year d - 1 else year d);
             m1 = (if months \<noteq> 0 \<and> m0 > 12 then m0 - 12
                   else if months \<noteq> 0 \<and> m0 < 1 then m0 + 12 else m0);
             d1 = min (days_in_month y1 m1) (day d);
             w = (days_from_civil y1 m1 d1 + days + weeks * 7) * 86400
                   + local_seconds d mod 86400 + hours * 3600
         in case resolve_wall (tz d) POST_TRANSITION w of
              Inl e \<Rightarrow> d
            | Inr u \<Rightarrow> d\<lparr>epoch_us := u * 1000000 + microsecond d\<rparr>))"

definition subtract :: "PendulumDateTime \<Rightarrow> int \<Rightarrow> int \<Rightarrow> int \<Rightarrow> int \<Rightarrow> PendulumDateTime" where
  "subtract d months weeks days hours = add d (- months) (- weeks) (- days) (- hours)"

text \<open>
  \<open>set(hour=h)\<close>, \<open>set(minute=m)\<close> and \<open>replace(minute=m)\<close> rebuild the datetime from its
  wall-clock fields with the one field changed.
\<close>

definition set_hour :: "PendulumDateTime \<Rightarrow> int \<Rightarrow> error + PendulumDateTime" where
  "set_hour d h =
     create_pendulum_time (year d) (month d) (day d) h (minute d) (second d) (microsecond d)
       (tz d) POST_TRANSITION"

definition set_minute :: "PendulumDateTime \<Rightarrow> int \<Rightarrow> error + PendulumDateTime" where
  "set_minute d mi =
     create_pendulum_time (year d) (month d) (day d) (hour d) mi (second d) (microsecond d)
       (tz d) POST_TRANSITION"

subsection \<open>\_replace\_date\_fields and \_find\_previous\_schedule\_time\<close>

definition replace_date_fields ::
  "PendulumDateTime \<Rightarrow> int \<Rightarrow> int \<Rightarrow> int \<Rightarrow> error + PendulumDateTime" where
  "replace_date_fields pendulum_date h mi d =
     (case create_pendulum_time (year pendulum_date) (month pendulum_date) d h mi 0 0
             (tz pendulum_date) TRANSITION_ERROR of
        Inl NonExistingTime \<Rightarrow>
          create_pendulum_time (year pendulum_date) (month pendulum_date) d (h + 1) 0 0 0
            (tz pendulum_date) TRANSITION_ERROR
      | Inl AmbiguousTime \<Rightarrow>
          create_pendulum_time (year pendulum_date) (month pendulum_date) d h mi 0 0
            (tz pendulum_date) POST_TRANSITION
      | r \<Rightarrow> r)"

datatype ScheduleType = HOURLY | DAILY | WEEKLY | MONTHLY

definition not_none :: "'a option \<Rightarrow> error + 'a" where
  "not_none v = (case v of None \<Rightarrow> Inl (CheckError ''Expected non-None value'') | Some x \<Rightarrow> Inr x)"

definition find_previous_schedule_time ::
  "int option \<Rightarrow> int option \<Rightarrow> int option \<Rightarrow> int option \<Rightarrow> ScheduleType \<Rightarrow> PendulumDateTime
     \<Rightarrow> error + PendulumDateTime" where
  "find_previous_schedule_time mi h d dow schedule_type pendulum_date =
     (case schedule_type of
        HOURLY \<Rightarrow>
          (let t0 = int_timestamp pendulum_date;
               t1 = t0 - t0 mod 60;
               current_minute = minute pendulum_date
           in and_then (not_none mi) (\<lambda>m.
                let t2 = t1 - 60 * ((current_minute - m) mod 60);
                    t3 = (if t2 * 1000000 \<ge> epoch_us pendulum_date then t2 - 60 * 60 else t2)
                in Inr (from_timestamp t3 (tz pendulum_date))))
      | DAILY \<Rightarrow>
          and_then (not_none h) (\<lambda>hh. and_then (not_none mi) (\<lambda>m.
          and_then (replace_date_fields pendulum_date hh m (day pendulum_date)) (\<lambda>new_time.
            if epoch_us new_time \<ge> epoch_us pendulum_date
            then (let new_time1 = subtract new_time 0 0 1 0
                  in replace_date_fields new_time1 hh m (day new_time1))
            else Inr new_time)))
      | WEEKLY \<Rightarrow>
          and_then (not_none h) (\<lambda>hh. and_then (not_none mi) (\<lambda>m.
          and_then (replace_date_fields pendulum_date hh m (day pendulum_date)) (\<lambda>new_time.
          and_then
            (let current_day_of_week = day_of_week new_time
             in if dow \<noteq> Some current_day_of_week
                then (case dow of
                        None \<Rightarrow> Inl TypeError
                      | Some w \<Rightarrow> Inr (subtract new_time 0 0 ((current_day_of_week - w) mod 7) 0))
                else Inr new_time) (\<lambda>new_time1.
            let new_time2 = (if epoch_us new_time1 \<ge> epoch_us pendulum_date
                             then subtract new_time1 0 1 0 0 else new_time1)
            in replace_date_fields new_time2 hh m (day new_time2)))))
      | MONTHLY \<Rightarrow>
          and_then (not_none h) (\<lambda>hh. and_then (not_none mi) (\<lambda>m. and_then (not_none d) (\<lambda>dd.
          and_then (replace_date_fields pendulum_date hh m dd) (\<lambda>new_time.
            if epoch_us new_time \<ge> epoch_us pendulum_date
            then (let new_time1 = subtract new_time 1 0 0 0
                  in replace_date_fields new_time1 hh m dd)
            else Inr new_time)))))"

subsection \<open>The policies of \_replace\_date\_fields\<close>

lemma wall_instants_shows:
  assumes "u \<in> set (wall_instants z w)"
  shows "u + utcoffset_at z u = w"
  using assms by (auto simp: wall_instants_def split: if_splits)

lemma wall_instants_sorted: "sorted (wall_instants z w)"
  by (simp add: wall_instants_def)

lemma sorted_last_greatest:
  assumes "sorted (xs :: int list)" and "v \<in> set xs"
  shows "v \<le> last xs"
  using assms by (induction xs) (auto split: if_splits)

definition fields_in_range :: "PendulumDateTime \<Rightarrow> int \<Rightarrow> int \<Rightarrow> int \<Rightarrow> bool" where
  "fields_in_range pendulum_date h mi d =
     (1 \<le> year pendulum_date \<and> year pendulum_date \<le> 9999
      \<and> 1 \<le> month pendulum_date \<and> month pendulum_date \<le> 12
      \<and> 1 \<le> d \<and> d \<le> days_in_month (year pendulum_date) (month pendulum_date)
      \<and> 0 \<le> h \<and> h \<le> 23 \<and> 0 \<le> mi \<and> mi \<le> 59)"

lemma replace_date_fields_unique:
  assumes "fields_in_range pd h mi d"
    and "wall_instants (tz pd) (wall_seconds (year pd) (month pd) d h mi 0) = [u]"
  shows "replace_date_fields pd h mi d = Inr \<lparr>epoch_us = u * 1000000, tz = tz pd\<rparr>"
  using assms
  by (simp add: replace_date_fields_def create_pendulum_time_def resolve_wall_def
      and_then_def fields_in_range_def)

lemma replace_date_fields_missing:
  assumes "fields_in_range pd h mi d"
    and "wall_instants (tz pd) (wall_seconds (year pd) (month pd) d h mi 0) = []"
    and "h < 23"
    and "wall_instants (tz pd) (wall_seconds (year pd) (month pd) d (h + 1) 0 0) = [u]"
  shows "replace_date_fields pd h mi d = Inr \<lparr>epoch_us = u * 1000000, tz = tz pd\<rparr>"
  using assms
  by (simp add: replace_date_fields_def create_pendulum_time_def resolve_wall_def
      and_then_def fields_in_range_def)

lemma replace_date_fields_ambiguous:
  assumes "fields_in_range pd h mi d"
    and "wall_instants (tz pd) (wall_seconds (year pd) (month pd) d h mi 0) = u1 # u2 # us"
  shows "replace_date_fields pd h mi d = Inr \<lparr>epoch_us = last (u2 # us) * 1000000, tz = tz pd\<rparr>"
  using assms
  by (simp add: replace_date_fields_def create_pendulum_time_def resolve_wall_def
      and_then_def fields_in_range_def)

text \<open>
  What the function does for a date and requested fields in range, by the number of
  instants at which the zone's clock shows the requested wall-clock time: with exactly one,
  that instant is returned; with none (a gap), provided the hour is below 23 and the
  wall-clock time (hour+1, minute 0) of that date is shown at exactly one instant, that
  one is returned; with two or more (an overlap), the latest of them is returned. In each
  case the zone's clock shows the stated wall-clock time at the instant returned. The two
  provisos of the gap case are not always met: the lemmas at the end of this subsection
  evaluate the function where they fail.
\<close>

lemma replace_date_fields_cases:
  assumes "fields_in_range pd h mi d"
  shows
    "(wall_instants (tz pd) (wall_seconds (year pd) (month pd) d h mi 0) = [u]
      \<longrightarrow> replace_date_fields pd h mi d = Inr \<lparr>epoch_us = u * 1000000, tz = tz pd\<rparr>
          \<and> u + utcoffset_at (tz pd) u = wall_seconds (year pd) (month pd) d h mi 0)
     \<and> (wall_instants (tz pd) (wall_seconds (year pd) (month pd) d h mi 0) = [] \<and> h < 23
        \<and> wall_instants (tz pd) (wall_seconds (year pd) (month pd) d (h + 1) 0 0) = [u']
      \<longrightarrow> replace_date_fields pd h mi d = Inr \<lparr>epoch_us = u' * 1000000, tz = tz pd\<rparr>
          \<and> u' + utcoffset_at (tz pd) u' = wall_seconds (year pd) (month pd) d (h + 1) 0 0)
     \<and> (wall_instants (tz pd) (wall_seconds (year pd) (month pd) d h mi 0) = u1 # u2 # us
      \<longrightarrow> replace_date_fields pd h mi d
            = Inr \<lparr>epoch_us = last (u2 # us) * 1000000, tz = tz pd\<rparr>
          \<and> last (u2 # us) + utcoffset_at (tz pd) (last (u2 # us))
              = wall_seconds (year pd) (month pd) d h mi 0
          \<and> (\<forall>v \<in> set (u1 # u2 # us). v \<le> last (u2 # us)))"
proof (intro conjI impI)
  assume a: "wall_instants (tz pd) (wall_seconds (year pd) (month pd) d h mi 0) = [u]"
  show "replace_date_fields pd h mi d = Inr \<lparr>epoch_us = u * 1000000, tz = tz pd\<rparr>"
    using assms a by (rule replace_date_fields_unique)
  have "u \<in> set (wall_instants (tz pd) (wall_seconds (year pd) (month pd) d h mi 0))"
    using a by simp
  then show "u + utcoffset_at (tz pd) u = wall_seconds (year pd) (month pd) d h mi 0"
    by (rule wall_instants_shows)
next
  assume b: "wall_instants (tz pd) (wall_seconds (year pd) (month pd) d h mi 0) = [] \<and> h < 23
        \<and> wall_instants (tz pd) (wall_seconds (year pd) (month pd) d (h + 1) 0 0) = [u']"
  show "replace_date_fields pd h mi d = Inr \<lparr>epoch_us = u' * 1000000, tz = tz pd\<rparr>"
    using assms b by (simp add: replace_date_fields_missing)
  have "u' \<in> set (wall_instants (tz pd) (wall_seconds (year pd) (month pd) d (h + 1) 0 0))"
    using b by simp
  then show "u' + utcoffset_at (tz pd) u' = wall_seconds (year pd) (month pd) d (h + 1) 0 0"
    by (rule wall_instants_shows)
next
  assume c: "wall_instants (tz pd) (wall_seconds (year pd) (month pd) d h mi 0) = u1 # u2 # us"
  show "replace_date_fields pd h mi d
          = Inr \<lparr>epoch_us = last (u2 # us) * 1000000, tz = tz pd\<rparr>"
    using assms c by (rule replace_date_fields_ambiguous)
  have l: "last (u2 # us) = last (wall_instants (tz pd) (wall_seconds (year pd) (month pd) d h mi 0))"
    using c by simp
  have "last (u2 # us) \<in> set (wall_instants (tz pd) (wall_seconds (year pd) (month pd) d h mi 0))"
    unfolding l using c by (metis last_in_set list.distinct(1))
  then show "last (u2 # us) + utcoffset_at (tz pd) (last (u2 # us))
              = wall_seconds (year pd) (month pd) d h mi 0"
    by (rule wall_instants_shows)
  show "\<forall>v \<in> set (u1 # u2 # us). v \<le> last (u2 # us)"
    unfolding l using sorted_last_greatest [OF wall_instants_sorted] c by metis
qed

text \<open>
  Four zones for the examples, each around one year.
  US/Central, 2019: UTC-6, UTC-5 from 2019-03-10T08:00:00Z (02:00 becomes 03:00), UTC-6
  again from 2019-11-03T07:00:00Z (02:00 becomes 01:00).
  Australia/Lord\_Howe, October 2021: UTC+10:30, UTC+11 from 2021-10-02T15:30:00Z (02:00
  becomes 02:30).
  Antarctica/Troll, March 2021: UTC, UTC+2 from 2021-03-28T01:00:00Z (01:00 becomes 03:00).
  America/Nuuk, March 2024: UTC-2, UTC-1 from 2024-03-31T01:00:00Z (23:00 of 2024-03-30
  becomes 00:00 of 2024-03-31).
\<close>

definition Central :: tzinfo where
  "Central = \<lparr>timezone_name = ''US/Central'', base_offset = - 21600,
      transitions = [(1552204800, - 18000), (1572764400, - 21600)]\<rparr>"

definition Lord_Howe :: tzinfo where
  "Lord_Howe = \<lparr>timezone_name = ''Australia/Lord_Howe'', base_offset = 37800,
      transitions = [(1633188600, 39600)]\<rparr>"

definition Troll :: tzinfo where
  "Troll = \<lparr>timezone_name = ''Antarctica/Troll'', base_offset = 0,
      transitions = [(1616893200, 7200)]\<rparr>"

definition Nuuk :: tzinfo where
  "Nuuk = \<lparr>timezone_name = ''America/Nuuk'', base_offset = - 7200,
      transitions = [(1711846800, - 3600)]\<rparr>"

lemma Central_2019_03_09_0230:
  "fields_in_range (from_timestamp 1552230000 Central) 2 30 9
   \<and> wall_instants (tz (from_timestamp 1552230000 Central))
        (wall_seconds (year (from_timestamp 1552230000 Central))
           (month (from_timestamp 1552230000 Central)) 9 2 30 0) = [1552120200]"
  by code_simp

lemma Central_2019_03_10_0230:
  "fields_in_range (from_timestamp 1552230000 Central) 2 30 10
   \<and> wall_instants (tz (from_timestamp 1552230000 Central))
        (wall_seconds (year (from_timestamp 1552230000 Central))
           (month (from_timestamp 1552230000 Central)) 10 2 30 0) = []
   \<and> wall_instants (tz (from_timestamp 1552230000 Central))
        (wall_seconds (year (from_timestamp 1552230000 Central))
           (month (from_timestamp 1552230000 Central)) 10 (2 + 1) 0 0) = [1552204800]"
  by code_simp

lemma Central_2019_11_03_0130:
  "fields_in_range (from_timestamp 1572766200 Central) 1 30 3
   \<and> wall_instants (tz (from_timestamp 1572766200 Central))
        (wall_seconds (year (from_timestamp 1572766200 Central))
           (month (from_timestamp 1572766200 Central)) 3 1 30 0) = [1572762600, 1572766200]"
  by code_simp

text \<open>
  In US/Central: 02:30 on 2019-03-09 exists once and is returned; 02:30 on 2019-03-10 is
  in the gap and 03:00 of that day (08:00 UTC) is returned, which is the instant at which
  the gap ends; 01:30 on 2019-11-03 is shown twice and the later instant (07:30 UTC) is
  returned.
\<close>

lemma replace_date_fields_Central:
  "replace_date_fields (from_timestamp 1552230000 Central) 2 30 9
     = Inr \<lparr>epoch_us = 1552120200000000, tz = Central\<rparr>
   \<and> replace_date_fields (from_timestamp 1552230000 Central) 2 30 10
     = Inr \<lparr>epoch_us = 1552204800000000, tz = Central\<rparr>
   \<and> replace_date_fields (from_timestamp 1572766200 Central) 1 30 3
     = Inr \<lparr>epoch_us = 1572766200000000, tz = Central\<rparr>"
proof -
  have tz1: "tz (from_timestamp 1552230000 Central) = Central"
    and tz2: "tz (from_timestamp 1572766200 Central) = Central"
    by (simp_all add: from_timestamp_def)
  have 1: "replace_date_fields (from_timestamp 1552230000 Central) 2 30 9
     = Inr \<lparr>epoch_us = 1552120200 * 1000000, tz = Central\<rparr>"
    using replace_date_fields_cases [of "from_timestamp 1552230000 Central" 2 30 9 1552120200]
      Central_2019_03_09_0230 unfolding tz1 by blast
  have 2: "replace_date_fields (from_timestamp 1552230000 Central) 2 30 10
     = Inr \<lparr>epoch_us = 1552204800 * 1000000, tz = Central\<rparr>"
    using replace_date_fields_cases
      [of "from_timestamp 1552230000 Central" 2 30 10 _ 1552204800]
      Central_2019_03_10_0230 unfolding tz1 by simp
  have 3: "replace_date_fields (from_timestamp 1572766200 Central) 1 30 3
     = Inr \<lparr>epoch_us = last [1572766200] * 1000000, tz = Central\<rparr>"
    using replace_date_fields_cases
      [of "from_timestamp 1572766200 Central" 1 30 3 _ _ 1572762600 1572766200 "[]"]
      Central_2019_11_03_0130 unfolding tz2 by blast
  from 1 2 3 show ?thesis by simp
qed

text \<open>
  C5. The handler of \<open>NonExistingTime\<close> is meant to ``advance to the end of the window,
  which does exist'', the first valid instant after the gap; what it builds is the
  wall-clock time (hour+1, minute 0). In Australia/Lord\_Howe the gap of 2021-10-03 runs
  from 02:00 to 02:30. For the date 2021-10-03 (the reference instant 2021-10-03T00:13:20Z
  is 11:13:20 of that day there) and the requested time 02:15, which no instant shows,
  \<open>_replace_date_fields\<close> returns 2021-10-02T16:00:00Z, where the clock shows 03:00; the
  gap ends at 2021-10-02T15:30:00Z, where the clock shows 02:30, and that instant, half
  an hour before the one returned, is the only one showing 02:30 of that day.
\<close>

theorem replace_date_fields_gap_end_missed:
  "year (from_timestamp 1633220000 Lord_Howe) = 2021
   \<and> month (from_timestamp 1633220000 Lord_Howe) = 10
   \<and> day (from_timestamp 1633220000 Lord_Howe) = 3
   \<and> wall_instants Lord_Howe (wall_seconds 2021 10 3 2 15 0) = []
   \<and> replace_date_fields (from_timestamp 1633220000 Lord_Howe) 2 15 3
       = Inr \<lparr>epoch_us = 1633190400000000, tz = Lord_Howe\<rparr>
   \<and> hour \<lparr>epoch_us = 1633190400000000, tz = Lord_Howe\<rparr> = 3
   \<and> minute \<lparr>epoch_us = 1633190400000000, tz = Lord_Howe\<rparr> = 0
   \<and> wall_instants Lord_Howe (wall_seconds 2021 10 3 2 30 0) = [1633188600]
   \<and> hour \<lparr>epoch_us = 1633188600000000, tz = Lord_Howe\<rparr> = 2
   \<and> minute \<lparr>epoch_us = 1633188600000000, tz = Lord_Howe\<rparr> = 30
   \<and> (1633188600000000 :: int) < 1633190400000000"
  by code_simp

text \<open>
  Every wall-clock second from 02:00:00 up to 02:29:59 of that day is in the gap, and
  02:30:00 is not: the gap ends there.
\<close>

lemma Lord_Howe_gap:
  "(0 \<le> s \<and> s < 1800
      \<longrightarrow> wall_instants Lord_Howe (wall_seconds 2021 10 3 2 0 0 + s) = [])
   \<and> wall_instants Lord_Howe (wall_seconds 2021 10 3 1 59 59) = [1633188599]
   \<and> wall_instants Lord_Howe (wall_seconds 2021 10 3 2 0 0 + 1800) = [1633188600]"
proof -
  have w: "wall_seconds 2021 10 3 2 0 0 = 1633226400"
    by code_simp
  have 1: "0 \<le> s \<and> s < 1800
      \<longrightarrow> wall_instants Lord_Howe (wall_seconds 2021 10 3 2 0 0 + s) = []"
    unfolding w by (simp add: wall_instants_def Lord_Howe_def utcoffset_at_def)
  have 2: "wall_instants Lord_Howe (wall_seconds 2021 10 3 1 59 59) = [1633188599]"
    by code_simp
  have 3: "wall_instants Lord_Howe (wall_seconds 2021 10 3 2 0 0 + 1800) = [1633188600]"
    by code_simp
  from 1 2 3 show ?thesis by simp
qed

text \<open>
  Where the wall-clock time (hour+1, minute 0) does not exist either, the second
  construction raises inside the handler and nothing is returned. In Antarctica/Troll the
  gap of 2021-03-28 runs from 01:00 to 03:00: for the requested time 01:30 the handler
  builds 02:00, which is in the gap too, and \<open>NonExistingTime\<close> escapes. In America/Nuuk
  the gap of 2024-03-30 runs from 23:00 to midnight: for the requested time 23:30 the
  handler builds hour 24, which the date constructor refuses with a \<open>ValueError\<close>.
\<close>

lemma replace_date_fields_Troll:
  "day (from_timestamp 1616932800 Troll) = 28
   \<and> replace_date_fields (from_timestamp 1616932800 Troll) 1 30 28 = Inl NonExistingTime"
  by code_simp

lemma replace_date_fields_Nuuk:
  "day (from_timestamp 1711800000 Nuuk) = 30
   \<and> replace_date_fields (from_timestamp 1711800000 Nuuk) 23 30 30 = Inl ValueError"
  by code_simp

subsection \<open>The previous tick of a monthly schedule\<close>

text \<open>
  C1. The cron string \<open>0 0 30 * *\<close> is a monthly schedule with minute 0, hour 0 and day
  30. From the reference instant 2021-02-15T00:00:00Z in UTC its previous tick is
  2021-01-30T00:00:00Z; \<open>_find_previous_schedule_time\<close> builds the 30th of the reference's
  month, February, and fails with the \<open>ValueError\<close> of the date constructor instead of
  returning a tick.
\<close>

theorem find_previous_schedule_time_monthly_day_30:
  "find_previous_schedule_time (Some 0) (Some 0) (Some 30) None MONTHLY
     (from_timestamp 1613347200 UTC) = Inl ValueError"
  by code_simp

text \<open>
  The same happens one step later when the reference's month has the day and the month
  before it has not: from 2021-03-15T00:00:00Z with day 31 the first candidate is
  2021-03-31, not before the reference; a month is subtracted (2021-02-28) and the 31st
  of February is built.
\<close>

lemma find_previous_schedule_time_monthly_day_31:
  "find_previous_schedule_time (Some 0) (Some 0) (Some 31) None MONTHLY
     (from_timestamp 1615766400 UTC) = Inl ValueError"
  by code_simp

text \<open>Where every month involved has the day, the previous tick is found.\<close>

lemma find_previous_schedule_time_monthly_day_15:
  "find_previous_schedule_time (Some 0) (Some 0) (Some 15) None MONTHLY
     (from_timestamp 1615766400 UTC) = Inr (from_timestamp 1613347200 UTC)"
  by code_simp

section \<open>Cron strings and croniter\<close>

text \<open>
  croniter is a library outside the repository. schedules.py uses its \<open>expand\<close> (the
  five or six fields of a cron string, each a list of values or the wildcard, and the
  table of ``nth weekday of the month'' entries, of which only emptiness is used; it
  raises \<open>CroniterBadCronError\<close> on a string it does not accept), \<open>is_valid\<close> (whether
  \<open>expand\<close> raises), and an iterator object, built from a cron string and a start
  datetime, that holds the expanded fields, the zone and a current instant and moves the
  current instant with \<open>get_next\<close> and \<open>get_prev\<close>. The library is a parameter of the
  model: a record of these functions, the last two taking the expanded fields, the zone
  and the current instant (in microseconds) and returning the new one. An element of an
  expanded field is the wildcard, a number, or the marker \<open>l\<close> of the last day of a month.
\<close>

datatype cron_elem = Star | Num int | LastDay

record croniter =
  expand :: "string \<Rightarrow> error + cron_elem list list \<times> bool"
  get_next :: "cron_elem list list \<Rightarrow> tzinfo \<Rightarrow> int \<Rightarrow> int"
  get_prev :: "cron_elem list list \<Rightarrow> tzinfo \<Rightarrow> int \<Rightarrow> int"

definition is_valid :: "croniter \<Rightarrow> string \<Rightarrow> bool" where
  "is_valid cr cron_string = (case expand cr cron_string of Inl e \<Rightarrow> False | Inr r \<Rightarrow> True)"

subsection \<open>is\_valid\_cron\_string and is\_valid\_cron\_schedule\<close>

definition is_valid_cron_string :: "croniter \<Rightarrow> string \<Rightarrow> bool" where
  "is_valid_cron_string cr cron_string =
     (if \<not> is_valid cr cron_string then False
      else (case expand cr cron_string of
              Inl e \<Rightarrow> False
            | Inr (expanded, nth_weekday_of_month) \<Rightarrow> length expanded = 5))"

text \<open>A \<open>cron_schedule\<close> is a string or a sequence of strings.\<close>

datatype cron_schedule = CronString string | CronSequence "string list"

definition is_valid_cron_schedule :: "croniter \<Rightarrow> cron_schedule \<Rightarrow> bool" where
  "is_valid_cron_schedule cr schedule =
     (case schedule of
        CronString s \<Rightarrow> is_valid_cron_string cr s
      | CronSequence xs \<Rightarrow> length xs > 0 \<and> list_all (is_valid_cron_string cr) xs)"

subsection \<open>A croniter for the numeric cron syntax\<close>

text \<open>
  For closed examples the library is instantiated by a model of croniter on the numeric
  syntax: fields separated by blanks; a field a comma-separated list of \<open>*\<close>, \<open>n\<close>,
  \<open>a-b\<close>, \<open>*/k\<close>, \<open>a-b/k\<close> or \<open>a/k\<close>; minutes 0..59, hours 0..23, days 1..31, months
  1..12, weekdays 0..7 with 7 read as 0 (Sunday), and an optional sixth field of seconds,
  which the search ignores. A tick is an instant at which the zone's clock shows second 0
  of a minute, an hour, a month and a day that the fields admit; when both the
  day-of-month and the day-of-week field are restricted, a day matching either is
  admitted. \<open>get_next\<close> is the first tick after the current instant and \<open>get_prev\<close> the
  last tick before it; the search goes day by day, passing over a month that the month
  field excludes in one step, for 3660 steps at most.
\<close>

fun split_char :: "char \<Rightarrow> string \<Rightarrow> string list" where
  "split_char c [] = [[]]"
| "split_char c (x # xs) =
     (if x = c then [] # split_char c xs
      else (case split_char c xs of [] \<Rightarrow> [[x]] | y # ys \<Rightarrow> (x # y) # ys))"

definition digit_of :: "char \<Rightarrow> int option" where
  "digit_of c =
     (if 48 \<le> (of_char c :: nat) \<and> (of_char c :: nat) \<le> 57
      then Some (int (of_char c) - 48) else None)"

fun parse_digits :: "int \<Rightarrow> string \<Rightarrow> int option" where
  "parse_digits acc [] = Some acc"
| "parse_digits acc (c # cs) =
     (case digit_of c of None \<Rightarrow> None | Some v \<Rightarrow> parse_digits (acc * 10 + v) cs)"

definition parse_int :: "string \<Rightarrow> int option" where
  "parse_int s = (if s = [] then None else parse_digits 0 s)"

definition parse_range :: "int \<Rightarrow> int \<Rightarrow> bool \<Rightarrow> string \<Rightarrow> (int \<times> int) option" where
  "parse_range lo hi open_end r =
     (if r = ''*'' then Some (lo, hi)
      else (case split_char (CHR ''-'') r of
              [a] \<Rightarrow> (case parse_int a of
                        None \<Rightarrow> None
                      | Some v \<Rightarrow> Some (v, if open_end then hi else v))
            | [a, b] \<Rightarrow> (case parse_int a of
                           None \<Rightarrow> None
                         | Some v \<Rightarrow> (case parse_int b of None \<Rightarrow> None | Some w \<Rightarrow> Some (v, w)))
            | _ \<Rightarrow> None))"

definition expand_item :: "int \<Rightarrow> int \<Rightarrow> string \<Rightarrow> cron_elem list option" where
  "expand_item lo hi e =
     (case split_char (CHR ''/'') e of
        [r] \<Rightarrow> (if r = ''*'' then Some [Star]
                else (case parse_range lo hi False r of
                        None \<Rightarrow> None
                      | Some (v, w) \<Rightarrow>
                          if lo \<le> v \<and> v \<le> w \<and> w \<le> hi then Some (map Num [v..w]) else None))
      | [r, st] \<Rightarrow> (case parse_int st of
                      None \<Rightarrow> None
                    | Some k \<Rightarrow>
                        (case parse_range lo hi True r of
                           None \<Rightarrow> None
                         | Some (v, w) \<Rightarrow>
                             if 1 \<le> k \<and> lo \<le> v \<and> v \<le> w \<and> w \<le> hi
                             then Some (map Num (filter (\<lambda>x. (x - v) mod k = 0) [v..w]))
                             else None))
      | _ \<Rightarrow> None)"

fun the_nums :: "cron_elem list \<Rightarrow> int list" where
  "the_nums [] = []"
| "the_nums (Num v # es) = v # the_nums es"
| "the_nums (e # es) = the_nums es"

definition expand_field :: "int \<Rightarrow> int \<Rightarrow> bool \<Rightarrow> string \<Rightarrow> cron_elem list option" where
  "expand_field lo hi weekday field =
     (let items = map (expand_item lo hi) (split_char (CHR '','') field)
      in if list_ex (\<lambda>r. r = None) items then None
         else (let es = concat (map the items)
               in if list_ex (\<lambda>e. e = Star) es then Some [Star]
                  else Some (map Num (sort (remdups
                         (map (\<lambda>v. if weekday \<and> v = 7 then 0 else v) (the_nums es)))))))"

definition ranges :: "(int \<times> int \<times> bool) list" where
  "ranges = [(0, 59, False), (0, 23, False), (1, 31, False), (1, 12, False), (0, 7, True),
             (0, 59, False)]"

definition numeric_expand :: "string \<Rightarrow> error + cron_elem list list \<times> bool" where
  "numeric_expand s =
     (let fields = filter (\<lambda>w. w \<noteq> []) (split_char (CHR '' '') s)
      in if length fields \<noteq> 5 \<and> length fields \<noteq> 6 then Inl CroniterBadCronError
         else (let rs = map (\<lambda>(f, lo, hi, wd). expand_field lo hi wd f) (zip fields ranges)
               in if list_ex (\<lambda>r. r = None) rs then Inl CroniterBadCronError
                  else Inr (map the rs, False)))"

definition elem_matches :: "cron_elem list \<Rightarrow> int \<Rightarrow> bool" where
  "elem_matches part v = (list_ex (\<lambda>e. e = Star \<or> e = Num v) part)"

definition day_matches :: "cron_elem list list \<Rightarrow> int \<Rightarrow> bool" where
  "day_matches parts n =
     (case civil_from_days n of (y, m, d) \<Rightarrow>
        elem_matches (parts ! 3) m
        \<and> (if parts ! 2 = [Star] then elem_matches (parts ! 4) ((n + 4) mod 7)
           else if parts ! 4 = [Star] then elem_matches (parts ! 2) d
           else elem_matches (parts ! 2) d \<or> elem_matches (parts ! 4) ((n + 4) mod 7)))"

definition times_of_day :: "cron_elem list list \<Rightarrow> int list" where
  "times_of_day parts =
     concat (map (\<lambda>h. map (\<lambda>mi. h * 3600 + mi * 60)
                         (filter (elem_matches (parts ! 0)) [0..59]))
                 (filter (elem_matches (parts ! 1)) [0..23]))"

definition ticks_on_day :: "cron_elem list list \<Rightarrow> tzinfo \<Rightarrow> int \<Rightarrow> int list" where
  "ticks_on_day parts z n =
     (if day_matches parts n
      then sort (concat (map (\<lambda>s. wall_instants z (n * 86400 + s)) (times_of_day parts)))
      else [])"

definition month_excluded :: "cron_elem list list \<Rightarrow> int \<Rightarrow> bool" where
  "month_excluded parts n = (\<not> elem_matches (parts ! 3) (fst (snd (civil_from_days n))))"

definition first_of_next_month :: "int \<Rightarrow> int" where
  "first_of_next_month n =
     (case civil_from_days n of (y, m, d) \<Rightarrow>
        if m = 12 then days_from_civil (y + 1) 1 1 else days_from_civil y (m + 1) 1)"

definition last_of_previous_month :: "int \<Rightarrow> int" where
  "last_of_previous_month n =
     (case civil_from_days n of (y, m, d) \<Rightarrow> days_from_civil y m 1 - 1)"

fun first_tick_after ::
  "cron_elem list list \<Rightarrow> tzinfo \<Rightarrow> int \<Rightarrow> int \<Rightarrow> nat \<Rightarrow> int option" where
  "first_tick_after parts z cur n 0 = None"
| "first_tick_after parts z cur n (Suc k) =
     (if month_excluded parts n then first_tick_after parts z cur (first_of_next_month n) k
      else (case filter (\<lambda>u. cur < u * 1000000) (ticks_on_day parts z n) of
              [] \<Rightarrow> first_tick_after parts z cur (n + 1) k
            | u # us \<Rightarrow> Some u))"

fun last_tick_before ::
  "cron_elem list list \<Rightarrow> tzinfo \<Rightarrow> int \<Rightarrow> int \<Rightarrow> nat \<Rightarrow> int option" where
  "last_tick_before parts z cur n 0 = None"
| "last_tick_before parts z cur n (Suc k) =
     (if month_excluded parts n then last_tick_before parts z cur (last_of_previous_month n) k
      else (case filter (\<lambda>u. u * 1000000 < cur) (ticks_on_day parts z n) of
              [] \<Rightarrow> last_tick_before parts z cur (n - 1) k
            | u # us \<Rightarrow> Some (last (u # us))))"

definition local_day :: "tzinfo \<Rightarrow> int \<Rightarrow> int" where
  "local_day z cur = (cur div 1000000 + utcoffset_at z (cur div 1000000)) div 86400"

definition numeric_get_next :: "cron_elem list list \<Rightarrow> tzinfo \<Rightarrow> int \<Rightarrow> int" where
  "numeric_get_next parts z cur =
     (case first_tick_after parts z cur (local_day z cur - 1) 3660 of
        None \<Rightarrow> cur
      | Some u \<Rightarrow> u * 1000000)"

definition numeric_get_prev :: "cron_elem list list \<Rightarrow> tzinfo \<Rightarrow> int \<Rightarrow> int" where
  "numeric_get_prev parts z cur =
     (case last_tick_before parts z cur (local_day z cur + 1) 3660 of
        None \<Rightarrow> cur
      | Some u \<Rightarrow> u * 1000000)"

definition numeric_croniter :: croniter where
  "numeric_croniter =
     \<lparr>expand = numeric_expand, get_next = numeric_get_next, get_prev = numeric_get_prev\<rparr>"

subsection \<open>Validity of a sequence of cron strings\<close>

lemma is_valid_cron_string_iff:
  "is_valid_cron_string cr s
     = (is_valid cr s
        \<and> (\<exists>r. expand cr s = Inr r \<and> length (fst r) = 5))"
  by (auto simp: is_valid_cron_string_def is_valid_def split: sum.splits)

text \<open>
  C10. Given a sequence of cron strings, \<open>is_valid_cron_schedule\<close> returns False for the
  empty sequence; for a non-empty sequence it returns True exactly when every element
  is valid for croniter and expands to exactly five fields (the first component of what
  \<open>expand\<close> returns has length five), which is the criterion of \<open>is_valid_cron_string\<close>.
\<close>

theorem is_valid_cron_schedule_sequence:
  "is_valid_cron_schedule cr (CronSequence []) = False
   \<and> (xs \<noteq> [] \<longrightarrow>
        is_valid_cron_schedule cr (CronSequence xs)
          = (\<forall>s \<in> set xs.
               is_valid cr s
               \<and> (\<exists>r. expand cr s = Inr r \<and> length (fst r) = 5)))
   \<and> (xs \<noteq> [] \<longrightarrow>
        is_valid_cron_schedule cr (CronSequence xs)
          = (\<forall>s \<in> set xs. is_valid_cron_string cr s))"
  by (simp add: is_valid_cron_schedule_def list_all_iff is_valid_cron_string_iff)

text \<open>
  With the numeric croniter: a daily and a five-minute schedule together are valid; a
  sequence holding a string of six fields (valid for croniter, with seconds) is not, nor
  is one holding a string that croniter refuses.
\<close>

lemma numeric_expand_examples:
  "numeric_expand ''0 0 * * *'' = Inr ([[Num 0], [Num 0], [Star], [Star], [Star]], False)
   \<and> numeric_expand ''*/15 0-3 1,15 * 7''
       = Inr ([[Num 0, Num 15, Num 30, Num 45], [Num 0, Num 1, Num 2, Num 3],
               [Num 1, Num 15], [Star], [Num 0]], False)
   \<and> numeric_expand ''0 0 * * * *''
       = Inr ([[Num 0], [Num 0], [Star], [Star], [Star], [Star]], False)
   \<and> numeric_expand ''61 0 * * *'' = Inl CroniterBadCronError"
  by code_simp

theorem is_valid_cron_schedule_sequence_witness:
  "is_valid_cron_schedule numeric_croniter (CronSequence [''0 0 * * *'', ''*/15 0-3 1,15 * 7''])
   \<and> \<not> is_valid_cron_schedule numeric_croniter (CronSequence [''0 0 * * *'', ''0 0 * * * *''])
   \<and> \<not> is_valid_cron_schedule numeric_croniter (CronSequence [''61 0 * * *''])
   \<and> \<not> is_valid_cron_schedule numeric_croniter (CronSequence [])"
proof -
  have e: "expand numeric_croniter = numeric_expand"
    by (simp add: numeric_croniter_def)
  have 1: "is_valid_cron_schedule numeric_croniter
             (CronSequence [''0 0 * * *'', ''*/15 0-3 1,15 * 7''])"
    using is_valid_cron_schedule_sequence
            [of numeric_croniter "[''0 0 * * *'', ''*/15 0-3 1,15 * 7'']"]
          numeric_expand_examples
    by (auto simp add: is_valid_def e)
  have 2: "\<not> is_valid_cron_schedule numeric_croniter
             (CronSequence [''0 0 * * *'', ''0 0 * * * *''])"
    using is_valid_cron_schedule_sequence
            [of numeric_croniter "[''0 0 * * *'', ''0 0 * * * *'']"]
          numeric_expand_examples
    by (auto simp add: is_valid_def e)
  have 3: "\<not> is_valid_cron_schedule numeric_croniter (CronSequence [''61 0 * * *''])"
    using is_valid_cron_schedule_sequence [of numeric_croniter "[''61 0 * * *'']"]
          numeric_expand_examples
    by (auto simp add: is_valid_def e)
  have 4: "\<not> is_valid_cron_schedule numeric_croniter (CronSequence [])"
    using is_valid_cron_schedule_sequence [of numeric_croniter "[]"] by simp
  from 1 2 3 4 show ?thesis by simp
qed

end
